theory Spec2Isabelle
  imports Complex_Main "HOL-Library.AList"
begin

section \<open>Values, exceptions and outcomes\<close>

text \<open>
  The telemetry core of the repository is the class \<open>TelemetryManagerMongoDB\<close>
  (\<open>telemetry_manager_mongodb.py\<close>) on top of \<open>MongoDBHandler\<close>
  (\<open>app/db/mongo_handler.py\<close>); its predecessor \<open>TelemetryManager\<close>
  (\<open>old_sqlite_system/telemetry_manager.py\<close>) is modelled where it differs in
  construction and in the summary. Python numbers are modelled as exact rationals
  (\<open>120.5\<close> is \<open>241 / 2\<close>); dictionaries with string keys are association
  lists in insertion order, read with \<open>map_of\<close>.
\<close>

datatype jval = JNum rat | JStr string | JDict "(string \<times> jval) list"

datatype exn =
    KeyError string | PyMongoError | ConnectionFailure | ZeroDivisionError
  | ValueError | OverflowError | OSError | JSONDecodeError | OperationalError

text \<open>
  A call either returns a value, raises an exception into its caller, or blocks
  for ever on \<open>threading.Lock.acquire\<close>. Every operation also yields the state
  it leaves behind.
\<close>

datatype 'a outcome = Returns 'a | Raises exn | Blocks

datatype level = DEBUG | INFO | WARNING | ERROR

definition then_do ::
  "'a outcome \<times> 's \<Rightarrow> ('a \<Rightarrow> 's \<Rightarrow> 'b outcome \<times> 's) \<Rightarrow> 'b outcome \<times> 's" where
  "then_do m f =
     (case m of
        (Returns v, s) \<Rightarrow> f v s
      | (Raises e, s) \<Rightarrow> (Raises e, s)
      | (Blocks, s) \<Rightarrow> (Blocks, s))"

text \<open>Python's \<open>a / b\<close> on numbers raises \<open>ZeroDivisionError\<close> when \<open>b\<close> is zero.\<close>

definition py_truediv :: "rat \<Rightarrow> rat \<Rightarrow> exn + rat" where
  "py_truediv a b = (if b = 0 then Inl ZeroDivisionError else Inr (a / b))"

section \<open>The storage handler\<close>

record telemetry_doc =
  metric_type :: string
  doc_value :: rat
  doc_metadata :: "(string \<times> jval) list"
  doc_timestamp :: rat

record alert_doc =
  ad_alert_type :: string
  ad_severity :: string
  ad_data :: "(string \<times> jval) list"
  ad_timestamp :: rat
  ad_resolved :: bool

record health_doc =
  uptime_seconds :: rat
  h_total_operations :: int
  h_error_count :: int
  h_error_rate :: rat
  avg_latency_ms :: rat
  total_cost_usd :: rat
  active_alerts :: nat
  h_timestamp :: rat

text \<open>
  The three collections the telemetry manager uses. \<open>faults\<close> is the behaviour
  of the database server: each call to the server consumes the head of the list,
  and fails with \<open>PyMongoError\<close> when it is \<open>True\<close>; an exhausted list means the
  server answers. \<open>inserted\<close> counts the documents inserted so far and numbers
  the object identifiers.
\<close>

record mongo_handler =
  telemetry :: "telemetry_doc list"
  alerts_coll :: "alert_doc list"
  system_health :: "health_doc list"
  faults :: "bool list"
  inserted :: nat

definition next_fault :: "mongo_handler \<Rightarrow> bool \<times> mongo_handler" where
  "next_fault h =
     (case faults h of
        [] \<Rightarrow> (False, h)
      | b # bs \<Rightarrow> (b, h\<lparr>faults := bs\<rparr>))"

text \<open>\<open>str(ObjectId)\<close>: twenty-four hexadecimal digits.\<close>

definition hex_digit :: "nat \<Rightarrow> char" where
  "hex_digit d = ''0123456789abcdef'' ! (d mod 16)"

fun hex_digits :: "nat \<Rightarrow> nat \<Rightarrow> string" where
  "hex_digits 0 n = []"
| "hex_digits (Suc k) n = hex_digits k (n div 16) @ [hex_digit n]"

definition object_id :: "nat \<Rightarrow> string" where
  "object_id n = hex_digits 24 n"

definition save_telemetry ::
  "telemetry_doc \<Rightarrow> mongo_handler \<Rightarrow> (exn + string) \<times> mongo_handler" where
  "save_telemetry d h =
     (let (bad, h1) = next_fault h in
      if bad then (Inl PyMongoError, h1)
      else (Inr (object_id (inserted h1)),
            h1\<lparr>telemetry := telemetry h1 @ [d], inserted := Suc (inserted h1)\<rparr>))"

definition save_alert ::
  "string \<Rightarrow> string \<Rightarrow> (string \<times> jval) list \<Rightarrow> rat \<Rightarrow> mongo_handler
     \<Rightarrow> (exn + string) \<times> mongo_handler" where
  "save_alert alert_type severity dat now h =
     (let alert_data = \<lparr>ad_alert_type = alert_type, ad_severity = severity, ad_data = dat,
                         ad_timestamp = now, ad_resolved = False\<rparr>;
          (bad, h1) = next_fault h in
      if bad then (Inl PyMongoError, h1)
      else (Inr (object_id (inserted h1)),
            h1\<lparr>alerts_coll := alerts_coll h1 @ [alert_data], inserted := Suc (inserted h1)\<rparr>))"

definition insert_health ::
  "health_doc \<Rightarrow> mongo_handler \<Rightarrow> (exn + string) \<times> mongo_handler" where
  "insert_health d h =
     (let (bad, h1) = next_fault h in
      if bad then (Inl PyMongoError, h1)
      else (Inr (object_id (inserted h1)),
            h1\<lparr>system_health := system_health h1 @ [d], inserted := Suc (inserted h1)\<rparr>))"

text \<open>
  \<open>get_alerts(limit)\<close>: the alert collection sorted by timestamp, newest first, cut
  to \<open>limit\<close> documents (a limit of 0 is no limit for the server); the handler
  answers a failing server with the empty list.
\<close>

definition get_alerts :: "nat \<Rightarrow> mongo_handler \<Rightarrow> alert_doc list \<times> mongo_handler" where
  "get_alerts limit h =
     (let (bad, h1) = next_fault h in
      if bad then ([], h1)
      else (let sorted_docs = rev (sort_key ad_timestamp (alerts_coll h1)) in
            (if limit = 0 then sorted_docs else take limit sorted_docs, h1)))"

text \<open>\<open>collection.find({"timestamp": {"$gte": cutoff}})\<close> on the two collections.\<close>

definition find_telemetry ::
  "rat \<Rightarrow> mongo_handler \<Rightarrow> (exn + telemetry_doc list) \<times> mongo_handler" where
  "find_telemetry cutoff h =
     (let (bad, h1) = next_fault h in
      if bad then (Inl PyMongoError, h1)
      else (Inr (filter (\<lambda>d. cutoff \<le> doc_timestamp d) (telemetry h1)), h1))"

definition find_alerts ::
  "rat \<Rightarrow> mongo_handler \<Rightarrow> (exn + alert_doc list) \<times> mongo_handler" where
  "find_alerts cutoff h =
     (let (bad, h1) = next_fault h in
      if bad then (Inl PyMongoError, h1)
      else (Inr (filter (\<lambda>d. cutoff \<le> ad_timestamp d) (alerts_coll h1)), h1))"

section \<open>The telemetry manager\<close>

record counters =
  error_count :: int
  total_operations :: int
  total_latency :: rat
  total_cost :: rat
  start_time :: rat

record alert =
  timestamp :: rat
  alert_type :: string
  severity :: string
  data :: "(string \<times> jval) list"
  resolved :: bool

text \<open>
  \<open>lock\<close> is \<open>True\<close> while \<open>self.lock\<close>, a \<open>threading.Lock\<close>, is held.
  \<open>logged\<close> collects the records of the module's logger, as level and message
  head.
\<close>

record manager =
  alert_thresholds :: "(string \<times> rat) list"
  metrics :: counters
  alerts :: "alert list"
  lock :: bool
  mongo :: mongo_handler
  logged :: "(level \<times> string) list"

text \<open>
  What a call reads from outside the process: the clock (\<open>time.time()\<close>,
  \<open>datetime.utcnow()\<close>; one reading per call, in seconds since 1970, so a naive
  datetime is the number of seconds on its own calendar), the environment
  variable \<open>ALERT_WEBHOOK\<close>, whether the HTTP request to the webhook fails, and
  the time zone of the host: \<open>to_posix\<close> is what \<open>.timestamp()\<close> makes of a naive
  datetime, which it reads as local time, and \<open>to_local\<close> is the local time
  \<open>datetime.fromtimestamp\<close> gives for a POSIX timestamp. On a host in UTC both
  are the identity; elsewhere they differ by the offset in force at the instant.
\<close>

record env =
  clock :: rat
  alert_webhook :: "string option"
  webhook_fails :: bool
  to_posix :: "rat \<Rightarrow> rat"
  to_local :: "rat \<Rightarrow> rat"

text \<open>
  The two quotients of the running counters, as \<open>record_error\<close> and
  \<open>get_system_health\<close> compute them: the denominator is
  \<open>max(1, total_operations)\<close>.
\<close>

definition error_rate_of :: "counters \<Rightarrow> exn + rat" where
  "error_rate_of m =
     py_truediv (of_int (error_count m)) (of_int (max 1 (total_operations m)))"

definition avg_latency_of :: "counters \<Rightarrow> exn + rat" where
  "avg_latency_of m =
     py_truediv (total_latency m) (of_int (max 1 (total_operations m)))"

definition log_msg :: "level \<Rightarrow> string \<Rightarrow> manager \<Rightarrow> manager" where
  "log_msg l msg s = s\<lparr>logged := logged s @ [(l, msg)]\<rparr>"

text \<open>
  \<open>with self.lock:\<close> on a \<open>threading.Lock\<close>. The lock is not reentrant: acquiring
  it while it is held blocks until somebody releases it, and nobody does when the
  holder is the caller itself. Leaving the block, by return or by exception,
  releases the lock.
\<close>

definition with_lock ::
  "(manager \<Rightarrow> 'a outcome \<times> manager) \<Rightarrow> manager \<Rightarrow> 'a outcome \<times> manager" where
  "with_lock body s =
     (if lock s then (Blocks, s)
      else (case body (s\<lparr>lock := True\<rparr>) of
              (Returns v, s') \<Rightarrow> (Returns v, s'\<lparr>lock := False\<rparr>)
            | (Raises e, s') \<Rightarrow> (Raises e, s'\<lparr>lock := False\<rparr>)
            | (Blocks, s') \<Rightarrow> (Blocks, s')))"

definition record_metric ::
  "env \<Rightarrow> string \<Rightarrow> rat \<Rightarrow> (string \<times> jval) list option \<Rightarrow> manager
     \<Rightarrow> string outcome \<times> manager" where
  "record_metric e mtype v metadata s =
     (let metric_data = \<lparr>metric_type = mtype, doc_value = v,
                          doc_metadata = (case metadata of None \<Rightarrow> [] | Some m \<Rightarrow> m),
                          doc_timestamp = clock e\<rparr>;
          (r, h) = save_telemetry metric_data (mongo s)
      in case r of
           Inr metric_id \<Rightarrow>
             (Returns metric_id, log_msg DEBUG ''Metric recorded'' (s\<lparr>mongo := h\<rparr>))
         | Inl ex \<Rightarrow>
             (Returns [], log_msg ERROR ''Failed to record metric'' (s\<lparr>mongo := h\<rparr>)))"

definition severity_map :: "(string \<times> string) list" where
  "severity_map =
     [(''high_error_rate'', ''critical''),
      (''critical_failure'', ''critical''),
      (''high_latency'', ''warning''),
      (''high_cost'', ''warning'')]"

definition severity_of :: "string \<Rightarrow> string" where
  "severity_of t = (case map_of severity_map t of None \<Rightarrow> ''info'' | Some sev \<Rightarrow> sev)"

definition send_alert ::
  "env \<Rightarrow> string \<Rightarrow> (string \<times> jval) list \<Rightarrow> manager \<Rightarrow> unit outcome \<times> manager" where
  "send_alert e atype dat =
     with_lock (\<lambda>s.
       let sev = severity_of atype;
           a = \<lparr>timestamp = clock e, alert_type = atype, severity = sev,
                data = dat, resolved = False\<rparr>;
           s1 = s\<lparr>alerts := alerts s @ [a]\<rparr>;
           (r, h) = save_alert atype sev dat (clock e) (mongo s1);
           s2 = (case r of
                   Inr alert_id \<Rightarrow> log_msg INFO ''Alert saved to MongoDB'' (s1\<lparr>mongo := h\<rparr>)
                 | Inl ex \<Rightarrow> log_msg ERROR ''Failed to save alert to MongoDB'' (s1\<lparr>mongo := h\<rparr>));
           s3 = log_msg WARNING ''ALERT'' s2;
           s4 = (case alert_webhook e of
                   None \<Rightarrow> s3
                 | Some url \<Rightarrow>
                     if url = [] then s3
                     else if webhook_fails e
                       then log_msg ERROR ''Failed to send webhook alert'' s3
                       else s3)
       in (Returns (), s4))"

definition record_error ::
  "env \<Rightarrow> string \<Rightarrow> (string \<times> jval) list option \<Rightarrow> manager \<Rightarrow> unit outcome \<times> manager" where
  "record_error e error_type details =
     with_lock (\<lambda>s.
       let s1 = s\<lparr>metrics := (metrics s)\<lparr>error_count := error_count (metrics s) + 1\<rparr>\<rparr>;
           error_data =
             [(''error_type'', JStr error_type),
              (''details'', JDict (case details of None \<Rightarrow> [] | Some d \<Rightarrow> d)),
              (''total_errors'', JNum (of_int (error_count (metrics s1))))]
       in then_do (record_metric e ''error'' 1 (Some error_data) s1) (\<lambda>_ s2.
            case error_rate_of (metrics s2) of
              Inl ex \<Rightarrow> (Raises ex, s2)
            | Inr rate \<Rightarrow>
                (case map_of (alert_thresholds s2) ''error_rate'' of
                   None \<Rightarrow> (Raises (KeyError ''error_rate''), s2)
                 | Some th \<Rightarrow>
                     if rate > th
                     then send_alert e ''high_error_rate''
                            [(''error_rate'', JNum rate),
                             (''total_errors'', JNum (of_int (error_count (metrics s2)))),
                             (''total_operations'',
                                JNum (of_int (total_operations (metrics s2))))] s2
                     else (Returns (), s2))))"

text \<open>
  The loop of \<open>_check_alert_conditions\<close> over the triggers it has collected:
  the threshold is looked up under the alert type itself.
\<close>

fun dispatch_alerts ::
  "env \<Rightarrow> (string \<times> rat) list \<Rightarrow> manager \<Rightarrow> unit outcome \<times> manager" where
  "dispatch_alerts e [] s = (Returns (), s)"
| "dispatch_alerts e ((atype, v) # rest) s =
     (case map_of (alert_thresholds s) atype of
        None \<Rightarrow> (Raises (KeyError atype), s)
      | Some th \<Rightarrow>
          (case send_alert e atype [(''value'', JNum v), (''threshold'', JNum th)] s of
             (Returns u, s') \<Rightarrow> dispatch_alerts e rest s'
           | (Raises ex, s') \<Rightarrow> (Raises ex, s')
           | (Blocks, s') \<Rightarrow> (Blocks, s')))"

text \<open>The triggers \<open>_check_alert_conditions\<close> collects before it sends anything.\<close>

definition triggers :: "(string \<times> rat) list \<Rightarrow> rat \<Rightarrow> rat \<Rightarrow> exn + (string \<times> rat) list" where
  "triggers th latency_ms cost_usd =
     (case map_of th ''latency'' of
        None \<Rightarrow> Inl (KeyError ''latency'')
      | Some t_lat \<Rightarrow>
          (case map_of th ''cost'' of
             None \<Rightarrow> Inl (KeyError ''cost'')
           | Some t_cost \<Rightarrow>
               Inr ((if latency_ms > t_lat then [(''high_latency'', latency_ms)] else []) @
                    (if cost_usd > t_cost then [(''high_cost'', cost_usd)] else []))))"

definition check_alert_conditions ::
  "env \<Rightarrow> rat \<Rightarrow> rat \<Rightarrow> bool \<Rightarrow> manager \<Rightarrow> unit outcome \<times> manager" where
  "check_alert_conditions e latency_ms cost_usd success s =
     (case triggers (alert_thresholds s) latency_ms cost_usd of
        Inl ex \<Rightarrow> (Raises ex, s)
      | Inr ts \<Rightarrow> dispatch_alerts e ts s)"

definition record_operation ::
  "env \<Rightarrow> rat \<Rightarrow> rat \<Rightarrow> bool \<Rightarrow> manager \<Rightarrow> unit outcome \<times> manager" where
  "record_operation e latency_ms cost_usd success =
     with_lock (\<lambda>s.
       let m = metrics s;
           s1 = s\<lparr>metrics := m\<lparr>total_operations := total_operations m + 1,
                                 total_latency := total_latency m + latency_ms,
                                 total_cost := total_cost m + cost_usd\<rparr>\<rparr>
       in then_do
            (if \<not> success
             then record_error e ''general'' None
                    (s1\<lparr>metrics := (metrics s1)\<lparr>error_count := error_count (metrics s1) + 1\<rparr>\<rparr>)
             else (Returns (), s1))
            (\<lambda>_ s2.
               then_do (record_metric e ''latency'' latency_ms None s2) (\<lambda>_ s3.
                 then_do
                   (if cost_usd > 0
                    then then_do (record_metric e ''cost'' cost_usd None s3)
                           (\<lambda>_ s4. (Returns (), s4))
                    else (Returns (), s3))
                   (\<lambda>_ s5. check_alert_conditions e latency_ms cost_usd success s5))))"

text \<open>
  \<open>get_system_health\<close> builds the snapshot under the lock and hands it to
  \<open>system_health.insert_one\<close>; a failing insert is caught and logged. (On success
  the driver also adds the new \<open>_id\<close> to the dictionary it was given; the fields of
  the snapshot are the ones below.)
\<close>

definition get_system_health :: "env \<Rightarrow> manager \<Rightarrow> health_doc outcome \<times> manager" where
  "get_system_health e =
     with_lock (\<lambda>s.
       let m = metrics s;
           uptime = clock e - start_time m
       in case error_rate_of m of
            Inl ex \<Rightarrow> (Raises ex, s)
          | Inr rate \<Rightarrow>
              (case avg_latency_of m of
                 Inl ex \<Rightarrow> (Raises ex, s)
               | Inr avg_latency \<Rightarrow>
                   (let health_data =
                          \<lparr>uptime_seconds = uptime,
                           h_total_operations = total_operations m,
                           h_error_count = error_count m,
                           h_error_rate = rate,
                           avg_latency_ms = avg_latency,
                           total_cost_usd = total_cost m,
                           active_alerts = length (filter (\<lambda>a. \<not> resolved a) (alerts s)),
                           h_timestamp = clock e\<rparr>;
                        (r, h) = insert_health health_data (mongo s);
                        s1 = (case r of
                                Inr _ \<Rightarrow> s\<lparr>mongo := h\<rparr>
                              | Inl _ \<Rightarrow> log_msg ERROR ''Failed to save system health''
                                          (s\<lparr>mongo := h\<rparr>))
                    in (Returns health_data, s1))))"

definition get_recent_alerts :: "nat \<Rightarrow> manager \<Rightarrow> alert_doc list outcome \<times> manager" where
  "get_recent_alerts limit s =
     (let (docs, h) = get_alerts limit (mongo s) in (Returns docs, s\<lparr>mongo := h\<rparr>))"

subsection \<open>The windowed summary\<close>

text \<open>A float that may be \<open>float('inf')\<close> or \<open>float('-inf')\<close>.\<close>

datatype xnum = NegInf | Fin rat | PosInf

fun xmin :: "xnum \<Rightarrow> rat \<Rightarrow> xnum" where
  "xmin NegInf v = NegInf"
| "xmin (Fin a) v = Fin (min a v)"
| "xmin PosInf v = Fin v"

fun xmax :: "xnum \<Rightarrow> rat \<Rightarrow> xnum" where
  "xmax NegInf v = Fin v"
| "xmax (Fin a) v = Fin (max a v)"
| "xmax PosInf v = PosInf"

record bucket =
  b_count :: nat
  b_sum :: rat
  b_avg :: rat
  b_min :: xnum
  b_max :: xnum

record summary =
  s_metrics :: "(string \<times> bucket) list"
  s_alerts :: "(string \<times> nat) list"
  time_range_hours :: int
  total_records :: nat

definition new_bucket :: bucket where
  "new_bucket = \<lparr>b_count = 0, b_sum = 0, b_avg = 0, b_min = PosInf, b_max = NegInf\<rparr>"

definition add_metric :: "telemetry_doc \<Rightarrow> (string \<times> bucket) list \<Rightarrow> (string \<times> bucket) list" where
  "add_metric d ms =
     (let k = metric_type d;
          b = (case map_of ms k of None \<Rightarrow> new_bucket | Some b0 \<Rightarrow> b0)
      in AList.update k
           (b\<lparr>b_count := b_count b + 1,
              b_sum := b_sum b + doc_value d,
              b_min := xmin (b_min b) (doc_value d),
              b_max := xmax (b_max b) (doc_value d)\<rparr>) ms)"

definition set_avg :: "bucket \<Rightarrow> bucket" where
  "set_avg b = (if b_count b > 0 then b\<lparr>b_avg := b_sum b / of_nat (b_count b)\<rparr> else b)"

definition add_alert :: "alert_doc \<Rightarrow> (string \<times> nat) list \<Rightarrow> (string \<times> nat) list" where
  "add_alert a m =
     AList.update (ad_severity a)
       ((case map_of m (ad_severity a) of None \<Rightarrow> 0 | Some n \<Rightarrow> n) + 1) m"

text \<open>
  An integer in arithmetic with a float is converted to a float first, and
  \<open>OverflowError\<close> is raised when it is too large for one: the integers from
  \<open>2 ^ 1024 - 2 ^ 970\<close> on round to a value no float has.
\<close>

definition float_limit :: int where
  "float_limit = 2 ^ 1024 - 2 ^ 970"

definition int_to_float :: "int \<Rightarrow> exn + rat" where
  "int_to_float x =
     (if - float_limit < x \<and> x < float_limit then Inr (of_int x) else Inl OverflowError)"

text \<open>
  The datetimes there are: from the first second of year 1 to the end of year
  9999, in seconds since 1970. \<open>datetime.fromtimestamp\<close> raises (\<open>ValueError\<close>,
  or \<open>OverflowError\<close> or \<open>OSError\<close> from the C library, all of them caught where
  it is used here) when the local time of the timestamp is not one of them.
\<close>

definition datetime_min :: rat where
  "datetime_min = - 62135596800"

definition datetime_max :: rat where
  "datetime_max = 253402300800"

definition fromtimestamp :: "env \<Rightarrow> rat \<Rightarrow> exn + rat" where
  "fromtimestamp e t =
     (let w = to_local e t
      in if datetime_min \<le> w \<and> w < datetime_max then Inr w else Inl ValueError)"

text \<open>
  The start of the window of \<open>get_metrics_summary\<close>, as a naive datetime:
  \<open>datetime.fromtimestamp(datetime.utcnow().timestamp() - (hours * 3600))\<close>.
  The naive UTC reading of the clock is taken for local time on the way to a
  timestamp, and the timestamp is turned into local time on the way back.
\<close>

definition cutoff_datetime :: "env \<Rightarrow> int \<Rightarrow> exn + rat" where
  "cutoff_datetime e hours =
     (case int_to_float (hours * 3600) of
        Inl ex \<Rightarrow> Inl ex
      | Inr x \<Rightarrow> fromtimestamp e (to_posix e (clock e) - x))"

text \<open>
  \<open>get_metrics_summary\<close> returns the empty dictionary \<open>{}\<close>, here \<open>None\<close>, when
  anything in its body raises: the computation of the cutoff or one of the two
  queries.
\<close>

definition get_metrics_summary ::
  "env \<Rightarrow> int \<Rightarrow> manager \<Rightarrow> summary option outcome \<times> manager" where
  "get_metrics_summary e hours s =
     (case cutoff_datetime e hours of
        Inl ex \<Rightarrow> (Returns None, log_msg ERROR ''Failed to get metrics summary'' s)
      | Inr cutoff \<Rightarrow>
          (let (r1, h1) = find_telemetry cutoff (mongo s)
           in case r1 of
                Inl ex \<Rightarrow>
                  (Returns None,
                   log_msg ERROR ''Failed to get metrics summary'' (s\<lparr>mongo := h1\<rparr>))
              | Inr metrics_data \<Rightarrow>
                  (let metrics_summary =
                         map (\<lambda>(k, b). (k, set_avg b)) (fold add_metric metrics_data []);
                       (r2, h2) = find_alerts cutoff h1
                   in case r2 of
                        Inl ex \<Rightarrow>
                          (Returns None,
                           log_msg ERROR ''Failed to get metrics summary''
                             (s\<lparr>mongo := h2\<rparr>))
                      | Inr alerts_data \<Rightarrow>
                          (Returns (Some
                             \<lparr>s_metrics = metrics_summary,
                              s_alerts = fold add_alert alerts_data [],
                              time_range_hours = hours,
                              total_records =
                                sum_list (map (\<lambda>(k, b). b_count b) metrics_summary)\<rparr>),
                           s\<lparr>mongo := h2\<rparr>))))"

subsection \<open>Construction\<close>

text \<open>
  The file a configuration path names: absent; present but failing in \<open>open\<close>;
  opened but failing in \<open>json.load\<close>; or parsed into a dictionary of sections of
  numbers.
\<close>

datatype file_state =
  Missing | Unreadable | Malformed | Parsed "(string \<times> (string \<times> rat) list) list"

definition default_thresholds :: "(string \<times> rat) list" where
  "default_thresholds =
     [(''latency'', 3000), (''cost'', 5 / 1000), (''error_rate'', 1 / 10),
      (''cpu_usage'', 80), (''memory_usage'', 85)]"

definition load_config ::
  "(string \<Rightarrow> file_state) \<Rightarrow> string option
     \<Rightarrow> (string \<times> (string \<times> rat) list) list \<times> (level \<times> string) list" where
  "load_config fs config_path =
     (case config_path of
        None \<Rightarrow> ([], [])
      | Some p \<Rightarrow>
          if p = [] then ([], [])
          else (case fs p of
                  Missing \<Rightarrow> ([], [])
                | Unreadable \<Rightarrow> ([], [(WARNING, ''Failed to load config'')])
                | Malformed \<Rightarrow> ([], [(WARNING, ''Failed to load config'')])
                | Parsed c \<Rightarrow> (c, [])))"

text \<open>
  \<open>__init__\<close>. The handler is what \<open>get_mongo_handler()\<close> gives: the process-wide
  handler, or the exception its constructor raises again when the server cannot
  be reached.
\<close>

definition init ::
  "(string \<Rightarrow> file_state) \<Rightarrow> env \<Rightarrow> exn + mongo_handler \<Rightarrow> string option \<Rightarrow> exn + manager" where
  "init fs e get_mongo_handler config_path =
     (let (config, lg) = load_config fs config_path;
          th = (case map_of config ''thresholds'' of
                  None \<Rightarrow> default_thresholds
                | Some t \<Rightarrow> t)
      in case get_mongo_handler of
           Inl ex \<Rightarrow> Inl ex
         | Inr h \<Rightarrow>
             Inr \<lparr>alert_thresholds = th,
                  metrics = \<lparr>error_count = 0, total_operations = 0, total_latency = 0,
                             total_cost = 0, start_time = clock e\<rparr>,
                  alerts = [],
                  lock = False,
                  mongo = h,
                  logged = lg\<rparr>)"

text \<open>A reachable server with empty collections, and the manager constructed on it.\<close>

definition empty_store :: "bool list \<Rightarrow> mongo_handler" where
  "empty_store fl =
     \<lparr>telemetry = [], alerts_coll = [], system_health = [], faults = fl, inserted = 0\<rparr>"

definition fresh :: "env \<Rightarrow> bool list \<Rightarrow> manager" where
  "fresh e fl =
     \<lparr>alert_thresholds = default_thresholds,
      metrics = \<lparr>error_count = 0, total_operations = 0, total_latency = 0,
                 total_cost = 0, start_time = clock e\<rparr>,
      alerts = [],
      lock = False,
      mongo = empty_store fl,
      logged = []\<rparr>"

text \<open>A concrete reading of the outside world, for closed instances.\<close>

definition env0 :: env where
  "env0 = \<lparr>clock = 1000, alert_webhook = None, webhook_fails = False,
            to_posix = (\<lambda>w. w), to_local = (\<lambda>t. t)\<rparr>"

text \<open>The server answers the next \<open>n\<close> calls.\<close>

definition answers :: "nat \<Rightarrow> mongo_handler \<Rightarrow> bool" where
  "answers n h = list_all (\<lambda>b. b = False) (take n (faults h))"

text \<open>A file system in which every file holds malformed JSON.\<close>

definition malformed_file :: "string \<Rightarrow> file_state" where
  "malformed_file p = Malformed"

section \<open>The old SQLite manager\<close>

text \<open>
  \<open>TelemetryManager\<close> of \<open>old_sqlite_system/telemetry_manager.py\<close>, as far as its
  construction and its summary go. The database holds the rows of the tables
  \<open>metrics\<close> and \<open>alerts\<close>; \<open>db_faults\<close> is its behaviour, consumed one entry per
  \<open>sqlite3.connect\<close> and per \<open>execute\<close>, which raise \<open>OperationalError\<close> on
  \<open>True\<close>.
\<close>

record sqlite_db =
  metric_rows :: "telemetry_doc list"
  alert_rows :: "alert_doc list"
  db_faults :: "bool list"

record sqlite_manager =
  sq_alert_thresholds :: "(string \<times> rat) list"
  sq_metrics :: counters
  sq_alerts :: "alert list"
  sq_lock :: bool
  sq_db :: sqlite_db



text \<open>
  \<open>_load_config\<close> of the old manager: \<open>open\<close> and \<open>json.load\<close> stand in no
  \<open>try\<close>, so what they raise leaves the function.
\<close>

definition sqlite_load_config ::
  "(string \<Rightarrow> file_state) \<Rightarrow> string option
     \<Rightarrow> exn + (string \<times> (string \<times> rat) list) list" where
  "sqlite_load_config fs config_path =
     (case config_path of
        None \<Rightarrow> Inr []
      | Some p \<Rightarrow>
          if p = [] then Inr []
          else (case fs p of
                  Missing \<Rightarrow> Inr []
                | Unreadable \<Rightarrow> Inl OSError
                | Malformed \<Rightarrow> Inl JSONDecodeError
                | Parsed c \<Rightarrow> Inr c))"

text \<open>
  \<open>__init__\<close> of the old manager. \<open>init_database\<close> is what \<open>_init_database()\<close>
  gives: the database with its tables, or the exception of creating the
  directory or the tables.
\<close>

definition sqlite_init ::
  "(string \<Rightarrow> file_state) \<Rightarrow> env \<Rightarrow> exn + sqlite_db \<Rightarrow> string option
     \<Rightarrow> exn + sqlite_manager" where
  "sqlite_init fs e init_database config_path =
     (case sqlite_load_config fs config_path of
        Inl ex \<Rightarrow> Inl ex
      | Inr config \<Rightarrow>
          (let th = (case map_of config ''thresholds'' of
                       None \<Rightarrow> default_thresholds
                     | Some t \<Rightarrow> t)
           in case init_database of
                Inl ex \<Rightarrow> Inl ex
              | Inr d \<Rightarrow>
                  Inr \<lparr>sq_alert_thresholds = th,
                       sq_metrics = \<lparr>error_count = 0, total_operations = 0,
                                     total_latency = 0, total_cost = 0,
                                     start_time = clock e\<rparr>,
                       sq_alerts = [],
                       sq_lock = False,
                       sq_db = d\<rparr>))"





text \<open>An empty database that answers, and the old manager constructed on it.\<close>

definition empty_db :: sqlite_db where
  "empty_db = \<lparr>metric_rows = [], alert_rows = [], db_faults = []\<rparr>"






section \<open>Concurrent callers\<close>

text \<open>
  Several threads call \<open>record_operation(latency_ms, cost_usd, success=False)\<close>
  on one manager. A caller is at one of these points: before the
  \<open>with self.lock:\<close> of \<open>record_operation\<close>; inside it, before the counters are
  updated; before the \<open>with self.lock:\<close> of \<open>record_error\<close>, which it has called
  with the counters updated; or past that second acquisition, where all the rest
  of the call lies, its return included.
\<close>

datatype pc = AtOperationLock | InOperation | AtRecordErrorLock | PastRecordErrorLock

text \<open>
  The counter updates of \<open>record_operation\<close> on the \<open>success=False\<close> path, up to
  the call of \<open>record_error\<close>.
\<close>

definition count_failed_operation :: "rat \<Rightarrow> rat \<Rightarrow> counters \<Rightarrow> counters" where
  "count_failed_operation latency_ms cost_usd m =
     m\<lparr>total_operations := total_operations m + 1,
       total_latency := total_latency m + latency_ms,
       total_cost := total_cost m + cost_usd,
       error_count := error_count m + 1\<rparr>"

text \<open>
  One step of one caller; the scheduler may pick any caller that can move. An
  acquisition needs the lock to be free. The relation stops at the second
  acquisition: no step leads on from \<open>PastRecordErrorLock\<close>.
\<close>

inductive step :: "rat \<Rightarrow> rat \<Rightarrow> pc list \<times> manager \<Rightarrow> pc list \<times> manager \<Rightarrow> bool"
  for latency_ms cost_usd where
  acquire_operation:
    "i < length ts \<Longrightarrow> ts ! i = AtOperationLock \<Longrightarrow> \<not> lock s \<Longrightarrow>
       step latency_ms cost_usd (ts, s) (ts[i := InOperation], s\<lparr>lock := True\<rparr>)"
| count_failure:
    "i < length ts \<Longrightarrow> ts ! i = InOperation \<Longrightarrow>
       step latency_ms cost_usd (ts, s)
         (ts[i := AtRecordErrorLock],
          s\<lparr>metrics := count_failed_operation latency_ms cost_usd (metrics s)\<rparr>)"
| acquire_record_error:
    "i < length ts \<Longrightarrow> ts ! i = AtRecordErrorLock \<Longrightarrow> \<not> lock s \<Longrightarrow>
       step latency_ms cost_usd (ts, s) (ts[i := PastRecordErrorLock], s\<lparr>lock := True\<rparr>)"

inductive runs :: "rat \<Rightarrow> rat \<Rightarrow> pc list \<times> manager \<Rightarrow> pc list \<times> manager \<Rightarrow> bool"
  for latency_ms cost_usd where
  start: "runs latency_ms cost_usd w w"
| next_step:
    "runs latency_ms cost_usd w w1 \<Longrightarrow> step latency_ms cost_usd w1 w2 \<Longrightarrow>
       runs latency_ms cost_usd w w2"

text \<open>
  The invariant of every run from a state with the lock free and all callers at
  the start: either nobody has moved, or exactly one caller holds the lock, with
  the counters untouched or counted once.
\<close>

definition others_wait :: "nat \<Rightarrow> pc list \<Rightarrow> bool" where
  "others_wait i ts = (\<forall>j < length ts. j \<noteq> i \<longrightarrow> ts ! j = AtOperationLock)"

definition stuck_inv :: "rat \<Rightarrow> rat \<Rightarrow> counters \<Rightarrow> pc list \<times> manager \<Rightarrow> bool" where
  "stuck_inv l c m0 w =
     ((\<forall>j < length (fst w). fst w ! j = AtOperationLock)
         \<and> \<not> lock (snd w) \<and> metrics (snd w) = m0
      \<or> (\<exists>i < length (fst w). fst w ! i = InOperation \<and> others_wait i (fst w))
         \<and> lock (snd w) \<and> metrics (snd w) = m0
      \<or> (\<exists>i < length (fst w). fst w ! i = AtRecordErrorLock \<and> others_wait i (fst w))
         \<and> lock (snd w) \<and> metrics (snd w) = count_failed_operation l c m0)"

text \<open>
  A hundred callers on a fresh manager after the first of them has taken the lock
  and counted its operation.
\<close>

definition stuck_world :: "pc list \<times> manager" where
  "stuck_world =
     ((replicate 100 AtOperationLock)[0 := AtRecordErrorLock],
      (fresh env0 [])\<lparr>lock := True,
         metrics := count_failed_operation 100 0 (metrics (fresh env0 []))\<rparr>)"

section \<open>Properties\<close>

subsection \<open>Sequencing, the lock and the metric write\<close>

lemma then_do_Returns: "then_do (Returns v, s) f = f v s"
  by (simp add: then_do_def)

lemma then_do_Raises: "then_do (Raises ex, s) f = (Raises ex, s)"
  by (simp add: then_do_def)

lemma then_do_Blocks: "then_do (Blocks, s) f = (Blocks, s)"
  by (simp add: then_do_def)

lemma with_lock_held: "lock s \<Longrightarrow> with_lock body s = (Blocks, s)"
  by (simp add: with_lock_def)

lemma with_lock_raises:
  "fst (with_lock body s) = Raises ex \<Longrightarrow> fst (body (s\<lparr>lock := True\<rparr>)) = Raises ex"
  by (auto simp: with_lock_def split: if_splits prod.splits outcome.splits)

lemma with_lock_not_raises:
  "fst (body (s\<lparr>lock := True\<rparr>)) \<noteq> Raises ex \<Longrightarrow> fst (with_lock body s) \<noteq> Raises ex"
  using with_lock_raises by blast

lemma error_rate_of_value:
  "error_rate_of m = Inr (of_int (error_count m) / of_int (max 1 (total_operations m)))"
  by (simp add: error_rate_of_def py_truediv_def)

lemma avg_latency_of_value:
  "avg_latency_of m = Inr (total_latency m / of_int (max 1 (total_operations m)))"
  by (simp add: avg_latency_of_def py_truediv_def)

lemma get_system_health_no_raise: "fst (get_system_health e s) \<noteq> Raises ex"
  by (simp add: get_system_health_def with_lock_def error_rate_of_value
      avg_latency_of_value Let_def split: prod.splits sum.splits)

lemma send_alert_no_raise: "fst (send_alert e t d s) \<noteq> Raises ex"
  by (simp add: send_alert_def with_lock_def Let_def
      split: prod.splits sum.splits option.splits)

text \<open>
  \<open>record_metric\<close> always returns, and leaves everything but the store and the
  log as it was; so a property of what follows it is a property of the sequence.
\<close>

lemma then_do_record_metricI:
  assumes "\<And>i s'. lock s' = lock s \<Longrightarrow> metrics s' = metrics s \<Longrightarrow>
             alert_thresholds s' = alert_thresholds s \<Longrightarrow> alerts s' = alerts s \<Longrightarrow>
             P (f i s')"
  shows "P (then_do (record_metric e t v md s) f)"
proof -
  have "\<exists>i s'. record_metric e t v md s = (Returns i, s') \<and> lock s' = lock s \<and>
          metrics s' = metrics s \<and> alert_thresholds s' = alert_thresholds s \<and>
          alerts s' = alerts s"
    by (simp add: record_metric_def log_msg_def Let_def split: prod.splits sum.splits)
  then show ?thesis using assms by (auto simp: then_do_Returns)
qed

lemma record_error_no_zero_division:
  "fst (record_error e error_type details s) \<noteq> Raises ZeroDivisionError"
  unfolding record_error_def
  apply (rule with_lock_not_raises)
  apply (simp only: Let_def)
  apply (rule then_do_record_metricI)
  apply (simp add: error_rate_of_value send_alert_no_raise split: option.splits)
  done

subsection \<open>The quotients of the counters\<close>

text \<open>
  Claim C6. For every state of the running counters, also with no operation
  recorded yet (or a corrupt negative count), the error rate and the average
  latency are computed without a division by zero: the denominator is
  \<open>max(1, total_operations)\<close>, at least 1, so both quotients are values;
  \<open>get_system_health\<close> raises nothing at all and \<open>record_error\<close> never raises
  \<open>ZeroDivisionError\<close>.
\<close>

theorem quotients_never_divide_by_zero:
  "error_rate_of m = Inr (of_int (error_count m) / of_int (max 1 (total_operations m)))
   \<and> avg_latency_of m = Inr (total_latency m / of_int (max 1 (total_operations m)))
   \<and> (1::int) \<le> max 1 (total_operations m)
   \<and> fst (get_system_health e s) \<noteq> Raises ex
   \<and> fst (record_error e error_type details s) \<noteq> Raises ZeroDivisionError"
  by (simp add: error_rate_of_value avg_latency_of_value get_system_health_no_raise
      record_error_no_zero_division)

theorem quotients_never_divide_by_zero_witness:
  "error_rate_of (metrics (fresh env0 [])) = Inr 0
   \<and> avg_latency_of (metrics (fresh env0 [])) = Inr 0
   \<and> total_operations (metrics (fresh env0 [])) = 0
   \<and> fst (get_system_health env0 (fresh env0 [])) \<noteq> Raises ZeroDivisionError
   \<and> fst (record_error env0 ''general'' None (fresh env0 [])) \<noteq> Raises ZeroDivisionError"
  using quotients_never_divide_by_zero
          [of "metrics (fresh env0 [])" env0 "fresh env0 []" ZeroDivisionError "''general''" None]
  by (simp add: fresh_def)

subsection \<open>Calls made while the lock is held\<close>

lemma record_error_held: "lock s \<Longrightarrow> record_error e t d s = (Blocks, s)"
  by (simp add: record_error_def with_lock_held)

lemma send_alert_held: "lock s \<Longrightarrow> send_alert e t d s = (Blocks, s)"
  by (simp add: send_alert_def with_lock_held)

lemma record_operation_held: "lock s \<Longrightarrow> record_operation e l c ok s = (Blocks, s)"
  by (simp add: record_operation_def with_lock_held)

lemma dispatch_alerts_held: "lock s \<Longrightarrow> snd (dispatch_alerts e ts s) = s"
  by (cases ts) (auto simp: send_alert_held split: option.splits)

lemma check_alert_conditions_held:
  "lock s \<Longrightarrow> snd (check_alert_conditions e l c ok s) = s"
  by (simp add: check_alert_conditions_def dispatch_alerts_held split: sum.splits)

lemma with_lock_fst:
  "\<not> lock s \<Longrightarrow> fst (with_lock body s) = fst (body (s\<lparr>lock := True\<rparr>))"
  by (simp add: with_lock_def split: prod.splits outcome.splits)

lemma with_lock_alerts:
  "alerts (snd (with_lock body s)) =
     (if lock s then alerts s else alerts (snd (body (s\<lparr>lock := True\<rparr>))))"
  by (simp add: with_lock_def split: prod.splits outcome.splits)

lemma with_lock_mongo:
  "mongo (snd (with_lock body s)) =
     (if lock s then mongo s else mongo (snd (body (s\<lparr>lock := True\<rparr>))))"
  by (simp add: with_lock_def split: prod.splits outcome.splits)

subsection \<open>The failing call blocks\<close>

text \<open>
  Claim C3 says that every call to \<open>record_operation\<close> returns, also on the
  \<open>success=False\<close> path. The code does the opposite: whatever the state, the
  latency and the cost, a call with \<open>success=False\<close> never returns. It takes
  the lock and calls \<open>record_error\<close>, whose first statement acquires the same
  non-reentrant lock.
\<close>

theorem record_operation_failure_blocks:
  "fst (record_operation e latency_ms cost_usd False s) = Blocks"
proof (cases "lock s")
  case True
  then show ?thesis by (simp add: record_operation_held)
next
  case False
  then show ?thesis
    by (simp add: record_operation_def with_lock_def Let_def record_error_held then_do_Blocks)
qed

text \<open>
  Claim C2 expects, after N failed operations on a fresh manager, an error rate of
  1.0 and one \<open>high_error_rate\<close> alert per failure. The first failed operation on
  a fresh manager already blocks: the counters stand at one error out of one
  operation, the lock stays held, nothing has been written, and no alert has been
  raised. No second operation can follow.
\<close>

theorem first_failure_blocks:
  "record_operation e latency_ms cost_usd False (fresh e fl) =
     (Blocks, (fresh e fl)\<lparr>lock := True,
        metrics := \<lparr>error_count = 1, total_operations = 1, total_latency = latency_ms,
                    total_cost = cost_usd, start_time = clock e\<rparr>\<rparr>)"
  by (simp add: record_operation_def with_lock_def Let_def record_error_held then_do_Blocks
      fresh_def)

subsection \<open>Concurrent failing callers\<close>

lemma others_wait_update:
  "i < length ts \<Longrightarrow> others_wait i ts \<Longrightarrow> others_wait i (ts[i := p])"
  by (simp add: others_wait_def nth_list_update)

lemma others_wait_first:
  "\<forall>j < length ts. ts ! j = AtOperationLock \<Longrightarrow> others_wait i (ts[i := p])"
  by (simp add: others_wait_def nth_list_update)

lemma others_wait_same:
  "others_wait i ts \<Longrightarrow> k < length ts \<Longrightarrow> ts ! k \<noteq> AtOperationLock \<Longrightarrow> k = i"
  by (auto simp: others_wait_def)

lemma stuck_inv_step:
  assumes "stuck_inv l c m0 w" and "step l c w w'"
  shows "stuck_inv l c m0 w'"
  using assms(2)
proof (cases rule: step.cases)
  case (acquire_operation i ts s)
  with assms(1) have all: "\<forall>j < length ts. ts ! j = AtOperationLock" and m: "metrics s = m0"
    by (auto simp: stuck_inv_def)
  have "ts[i := InOperation] ! i = InOperation" "others_wait i (ts[i := InOperation])"
    using acquire_operation all by (simp_all add: others_wait_first)
  with acquire_operation m show ?thesis
    unfolding stuck_inv_def by (intro disjI2 disjI1) auto
next
  case (count_failure i ts s)
  with assms(1) obtain k where k: "k < length ts" "ts ! k = InOperation" "others_wait k ts"
    and ls: "lock s" "metrics s = m0"
    unfolding stuck_inv_def others_wait_def by fastforce
  have "i = k" using others_wait_same [OF k(3), of i] count_failure by simp
  then have "ts[i := AtRecordErrorLock] ! i = AtRecordErrorLock"
    "others_wait i (ts[i := AtRecordErrorLock])"
    using k by (simp_all add: others_wait_update)
  with count_failure ls show ?thesis
    unfolding stuck_inv_def by (intro disjI2) auto
next
  case (acquire_record_error i ts s)
  with assms(1) have False
    by (auto simp: stuck_inv_def)
  then show ?thesis ..
qed

lemma stuck_inv_runs:
  assumes "runs l c w0 w" and "stuck_inv l c m0 w0"
  shows "stuck_inv l c m0 w"
  using assms by (induction rule: runs.induct) (auto intro: stuck_inv_step)

lemma stuck_inv_pcs:
  assumes "stuck_inv l c m0 w"
  shows "PastRecordErrorLock \<notin> set (fst w)"
proof
  assume "PastRecordErrorLock \<in> set (fst w)"
  then obtain j where j: "j < length (fst w)" "fst w ! j = PastRecordErrorLock"
    by (auto simp: in_set_conv_nth)
  from assms j show False
    unfolding stuck_inv_def others_wait_def by (metis pc.distinct(5,9,11))
qed

lemma stuck_inv_counters:
  assumes "stuck_inv l c m0 w"
  shows "metrics (snd w) = m0 \<or> metrics (snd w) = count_failed_operation l c m0"
  using assms unfolding stuck_inv_def by blast

text \<open>
  The state in which the one moving caller is stuck is the state the blocked call
  of the sequential model leaves.
\<close>

lemma stuck_state_is_blocked_call:
  "record_operation e l c False (fresh e fl) =
     (Blocks, (fresh e fl)\<lparr>lock := True,
                metrics := count_failed_operation l c (metrics (fresh e fl))\<rparr>)"
  by (simp add: record_operation_def with_lock_def Let_def record_error_held then_do_Blocks
      fresh_def count_failed_operation_def)

text \<open>
  Claim C5 expects 100 concurrent callers with \<open>success=False\<close> to leave
  \<open>error_count = 100\<close> and \<open>total_operations = 100\<close>. In every schedule of any
  number of such callers on a fresh manager, at every moment, both counters are
  at most 1 and no caller has got past the lock of \<open>record_error\<close>: the first
  caller to take the lock keeps it for ever, and no caller returns.
\<close>

theorem no_schedule_completes:
  assumes "runs latency_ms cost_usd (replicate n AtOperationLock, fresh e fl) w"
  shows "total_operations (metrics (snd w)) \<le> 1
       \<and> error_count (metrics (snd w)) \<le> 1
       \<and> PastRecordErrorLock \<notin> set (fst w)"
proof -
  have "stuck_inv latency_ms cost_usd (metrics (fresh e fl))
          (replicate n AtOperationLock, fresh e fl)"
    by (simp add: stuck_inv_def fresh_def)
  with assms have i: "stuck_inv latency_ms cost_usd (metrics (fresh e fl)) w"
    by (rule stuck_inv_runs)
  from stuck_inv_counters [OF i] stuck_inv_pcs [OF i] show ?thesis
    by (auto simp: fresh_def count_failed_operation_def)
qed

theorem no_schedule_completes_witness:
  "runs 100 0 (replicate 100 AtOperationLock, fresh env0 []) stuck_world
   \<and> total_operations (metrics (snd stuck_world)) = 1
   \<and> error_count (metrics (snd stuck_world)) = 1
   \<and> total_operations (metrics (snd stuck_world)) \<le> 1
   \<and> error_count (metrics (snd stuck_world)) \<le> 1
   \<and> PastRecordErrorLock \<notin> set (fst stuck_world)"
proof -
  have nl: "\<not> lock (fresh env0 [])" by (simp add: fresh_def)
  have "step 100 0 (replicate 100 AtOperationLock, fresh env0 [])
          ((replicate 100 AtOperationLock)[0 := InOperation], (fresh env0 [])\<lparr>lock := True\<rparr>)"
    by (rule acquire_operation) (simp_all add: nl)
  then have r1: "runs 100 0 (replicate 100 AtOperationLock, fresh env0 [])
          ((replicate 100 AtOperationLock)[0 := InOperation], (fresh env0 [])\<lparr>lock := True\<rparr>)"
    using start next_step by blast
  have "step 100 0
          ((replicate 100 AtOperationLock)[0 := InOperation], (fresh env0 [])\<lparr>lock := True\<rparr>)
          (((replicate 100 AtOperationLock)[0 := InOperation])[0 := AtRecordErrorLock],
           (fresh env0 [])\<lparr>lock := True,
              metrics := count_failed_operation 100 0
                           (metrics ((fresh env0 [])\<lparr>lock := True\<rparr>))\<rparr>)"
    by (rule count_failure) simp_all
  with r1 have r: "runs 100 0 (replicate 100 AtOperationLock, fresh env0 []) stuck_world"
    unfolding stuck_world_def using next_step by fastforce
  have "total_operations (metrics (snd stuck_world)) = 1"
    "error_count (metrics (snd stuck_world)) = 1"
    by (simp_all add: stuck_world_def fresh_def count_failed_operation_def)
  with r no_schedule_completes [OF r] show ?thesis by simp
qed

subsection \<open>No alert comes out of \<open>record_operation\<close>\<close>

lemma then_do_record_metric_keeps:
  assumes "\<And>i s'. lock s' = lock s \<Longrightarrow> alerts s' = alerts s \<Longrightarrow>
             alerts_coll (mongo s') = alerts_coll (mongo s) \<Longrightarrow> P (f i s')"
  shows "P (then_do (record_metric e t v md s) f)"
proof -
  have "\<exists>i s'. record_metric e t v md s = (Returns i, s') \<and> lock s' = lock s \<and>
          alerts s' = alerts s \<and> alerts_coll (mongo s') = alerts_coll (mongo s)"
    by (cases "faults (mongo s)")
       (simp_all add: record_metric_def save_telemetry_def next_fault_def log_msg_def Let_def)
  then show ?thesis using assms by (auto simp: then_do_Returns)
qed

text \<open>
  What \<open>record_operation\<close> does after the counters, on a state where it holds the
  lock: the in-memory alert list and the stored alerts stay as they are.
\<close>

lemma record_operation_body_keeps_alerts:
  assumes "lock s1"
  shows "alerts (snd (then_do (record_metric e ''latency'' l None s1) (\<lambda>_ s3.
                 then_do
                   (if c > 0
                    then then_do (record_metric e ''cost'' c None s3)
                           (\<lambda>_ s4. (Returns (), s4))
                    else (Returns (), s3))
                   (\<lambda>_ s5. check_alert_conditions e l c ok s5)))) = alerts s1
     \<and> alerts_coll (mongo (snd (then_do (record_metric e ''latency'' l None s1) (\<lambda>_ s3.
                 then_do
                   (if c > 0
                    then then_do (record_metric e ''cost'' c None s3)
                           (\<lambda>_ s4. (Returns (), s4))
                    else (Returns (), s3))
                   (\<lambda>_ s5. check_alert_conditions e l c ok s5))))) = alerts_coll (mongo s1)"
proof (rule then_do_record_metric_keeps)
  fix i :: string and s' :: manager
  assume s': "lock s' = lock s1" "alerts s' = alerts s1"
    "alerts_coll (mongo s') = alerts_coll (mongo s1)"
  show "alerts (snd (then_do
                   (if c > 0
                    then then_do (record_metric e ''cost'' c None s')
                           (\<lambda>_ s4. (Returns (), s4))
                    else (Returns (), s'))
                   (\<lambda>_ s5. check_alert_conditions e l c ok s5))) = alerts s1
      \<and> alerts_coll (mongo (snd (then_do
                   (if c > 0
                    then then_do (record_metric e ''cost'' c None s')
                           (\<lambda>_ s4. (Returns (), s4))
                    else (Returns (), s'))
                   (\<lambda>_ s5. check_alert_conditions e l c ok s5)))) = alerts_coll (mongo s1)"
  proof (cases "c > 0")
    case False
    with s' assms show ?thesis
      by (simp add: then_do_Returns check_alert_conditions_held)
  next
    case True
    have "alerts (snd (then_do (then_do (record_metric e ''cost'' c None s')
                           (\<lambda>_ s4. (Returns (), s4)))
                   (\<lambda>_ s5. check_alert_conditions e l c ok s5))) = alerts s1
      \<and> alerts_coll (mongo (snd (then_do (then_do (record_metric e ''cost'' c None s')
                           (\<lambda>_ s4. (Returns (), s4)))
                   (\<lambda>_ s5. check_alert_conditions e l c ok s5)))) = alerts_coll (mongo s1)"
      by (rule then_do_record_metric_keeps)
         (use s' assms in \<open>simp add: then_do_Returns check_alert_conditions_held\<close>)
    with True show ?thesis by simp
  qed
qed

lemma record_operation_never_alerts:
  "alerts (snd (record_operation e latency_ms cost_usd success s)) = alerts s
   \<and> alerts_coll (mongo (snd (record_operation e latency_ms cost_usd success s)))
       = alerts_coll (mongo s)"
proof (cases "lock s")
  case True
  then show ?thesis by (simp add: record_operation_held)
next
  case False
  show ?thesis
  proof (cases success)
    case False
    with \<open>\<not> lock s\<close> show ?thesis
      by (simp add: record_operation_def with_lock_def Let_def record_error_held then_do_Blocks)
  next
    case True
    with \<open>\<not> lock s\<close> show ?thesis
      using record_operation_body_keeps_alerts
        [of "s\<lparr>lock := True,
               metrics := (metrics s)\<lparr>total_operations := total_operations (metrics s) + 1,
                                      total_latency := total_latency (metrics s) + latency_ms,
                                      total_cost := total_cost (metrics s) + cost_usd\<rparr>\<rparr>"
            e latency_ms cost_usd True]
      by (simp add: record_operation_def with_lock_alerts with_lock_mongo Let_def then_do_Returns)
  qed
qed

lemma check_high_latency_default:
  assumes "alert_thresholds s = default_thresholds" and "3000 < l"
  shows "check_alert_conditions e l c ok s = (Raises (KeyError ''high_latency''), s)"
  using assms
  by (simp add: check_alert_conditions_def triggers_def default_thresholds_def)

lemma over_threshold_latency_KeyError:
  assumes "3000 < latency_ms"
  shows "fst (record_operation e latency_ms cost_usd True (fresh e fl))
           = Raises (KeyError ''high_latency'')"
proof -
  have th: "alert_thresholds (fresh e fl) = default_thresholds" and nl: "\<not> lock (fresh e fl)"
    by (simp_all add: fresh_def)
  show ?thesis
    unfolding record_operation_def
    apply (simp only: with_lock_fst [OF nl] Let_def)
    apply (simp only: if_False not_True_eq_False then_do_Returns)
    apply (rule then_do_record_metricI)
    apply (cases "cost_usd > 0")
     apply (simp only: if_True)
     apply (rule then_do_record_metricI)
     apply (simp add: then_do_Returns check_high_latency_default th assms)
    apply (simp add: then_do_Returns check_high_latency_default th assms)
    done
qed

text \<open>
  Claim C4 expects exactly one \<open>high_latency\<close> alert whenever the latency exceeds
  the threshold. The code never produces one. Whatever the state and the
  arguments, \<open>record_operation\<close> leaves the in-memory alert list and the stored
  alerts as they were; and on a fresh manager with the default thresholds, a
  successful operation whose latency exceeds 3000 raises \<open>KeyError\<close> into the
  caller, because the threshold is looked up under \<open>'high_latency'\<close> and the
  thresholds are keyed \<open>'latency'\<close>.
\<close>

theorem over_threshold_latency_raises:
  "alerts (snd (record_operation e latency_ms cost_usd success s)) = alerts s
   \<and> alerts_coll (mongo (snd (record_operation e latency_ms cost_usd success s)))
       = alerts_coll (mongo s)
   \<and> (3000 < latency_ms \<longrightarrow>
        fst (record_operation e latency_ms cost_usd True (fresh e fl))
          = Raises (KeyError ''high_latency''))"
  using record_operation_never_alerts [of e latency_ms cost_usd success s]
    over_threshold_latency_KeyError [of latency_ms e cost_usd fl]
  by simp

theorem over_threshold_latency_raises_witness:
  "(3000::rat) < 5000
   \<and> fst (record_operation env0 5000 0 True (fresh env0 [])) = Raises (KeyError ''high_latency'')
   \<and> alerts (snd (record_operation env0 5000 0 True (fresh env0 []))) = []"
  using over_threshold_latency_raises [of env0 5000 0 True "fresh env0 []" "[]"]
  by (simp add: fresh_def)

subsection \<open>Storage failures\<close>

lemma length_hex_digits: "length (hex_digits k n) = k"
  by (induction k n rule: hex_digits.induct) simp_all

lemma object_id_nonempty: "object_id n \<noteq> []"
  using length_hex_digits [of 24 n] by (auto simp: object_id_def)

text \<open>
  \<open>record_metric\<close> always returns: the identifier of the stored document, or the
  empty string when the write fails.
\<close>

lemma record_metric_result:
  "fst (record_metric e t v md s) =
     Returns (if fst (next_fault (mongo s)) then [] else object_id (inserted (mongo s)))"
  by (cases "faults (mongo s)")
     (simp_all add: record_metric_def save_telemetry_def next_fault_def Let_def)

lemma dispatch_raises_KeyError:
  "fst (dispatch_alerts e ts s) = Raises ex \<Longrightarrow> \<exists>k. ex = KeyError k"
proof (induction ts arbitrary: s)
  case Nil
  then show ?case by simp
next
  case (Cons a ts)
  obtain atype v where a: "a = (atype, v)" by (cases a)
  show ?case
  proof (cases "map_of (alert_thresholds s) atype")
    case None
    with Cons.prems a show ?thesis by auto
  next
    case (Some th)
    obtain r s' where
      sa: "send_alert e atype [(''value'', JNum v), (''threshold'', JNum th)] s = (r, s')"
      by (cases "send_alert e atype [(''value'', JNum v), (''threshold'', JNum th)] s")
    have "r \<noteq> Raises ex" using send_alert_no_raise [of e atype _ s ex] sa
      by (metis fst_conv)
    with Cons.prems a Some sa Cons.IH [of s'] show ?thesis
      by (cases r) simp_all
  qed
qed

lemma check_alert_conditions_raises_KeyError:
  "fst (check_alert_conditions e l c ok s) = Raises ex \<Longrightarrow> \<exists>k. ex = KeyError k"
  by (auto simp: check_alert_conditions_def triggers_def dispatch_raises_KeyError
      split: sum.splits option.splits)

lemma record_error_raises_KeyError:
  assumes "fst (record_error e t d s) = Raises ex"
  shows "\<exists>k. ex = KeyError k"
proof -
  have "fst (record_error e t d s) = Raises ex \<longrightarrow> (\<exists>k. ex = KeyError k)"
    unfolding record_error_def
    apply (rule impI)
    apply (drule with_lock_raises)
    apply (simp only: Let_def)
    apply (erule rev_mp)
    apply (rule then_do_record_metricI)
    apply (auto simp: error_rate_of_value send_alert_no_raise split: option.splits)
    done
  with assms show ?thesis by blast
qed

lemma record_operation_raises_KeyError:
  assumes "fst (record_operation e l c ok s) = Raises ex"
  shows "\<exists>k. ex = KeyError k"
proof -
  have "fst (record_operation e l c ok s) = Raises ex \<longrightarrow> (\<exists>k. ex = KeyError k)"
    unfolding record_operation_def
    apply (rule impI)
    apply (drule with_lock_raises)
    apply (simp only: Let_def)
    apply (erule rev_mp)
    apply (cases ok)
     apply (simp only: not_True_eq_False if_False then_do_Returns)
     apply (rule then_do_record_metricI)
     apply (cases "c > 0")
      apply (simp only: if_True)
      apply (rule then_do_record_metricI)
      apply (simp add: then_do_Returns check_alert_conditions_raises_KeyError)
     apply (simp add: then_do_Returns check_alert_conditions_raises_KeyError)
    apply (simp add: record_error_held then_do_Blocks)
    done
  with assms show ?thesis by blast
qed

lemma get_recent_alerts_returns: "\<exists>docs s'. get_recent_alerts limit s = (Returns docs, s')"
  by (simp add: get_recent_alerts_def split: prod.splits)

lemma get_metrics_summary_returns: "\<exists>r s'. get_metrics_summary e hours s = (Returns r, s')"
  by (simp add: get_metrics_summary_def Let_def split: prod.splits sum.splits)

text \<open>
  None of the seven operations lets the exception of a failing server reach its
  caller, whatever the server does.
\<close>

lemma storage_failure_never_raised:
  "fst (record_operation e l c ok s) \<noteq> Raises PyMongoError
   \<and> fst (record_metric e t v md s) \<noteq> Raises ex
   \<and> fst (record_error e et d s) \<noteq> Raises PyMongoError
   \<and> fst (send_alert e a dat s) \<noteq> Raises ex
   \<and> fst (get_system_health e s) \<noteq> Raises ex
   \<and> fst (get_recent_alerts limit s) \<noteq> Raises ex
   \<and> fst (get_metrics_summary e hours s) \<noteq> Raises ex"
proof -
  have "fst (record_operation e l c ok s) \<noteq> Raises PyMongoError"
    using record_operation_raises_KeyError by blast
  moreover have "fst (record_error e et d s) \<noteq> Raises PyMongoError"
    using record_error_raises_KeyError by blast
  moreover have "fst (get_recent_alerts limit s) \<noteq> Raises ex"
    using get_recent_alerts_returns [of limit s] by auto
  moreover have "fst (get_metrics_summary e hours s) \<noteq> Raises ex"
    using get_metrics_summary_returns [of e hours s] by auto
  ultimately show ?thesis
    by (simp add: record_metric_result send_alert_no_raise get_system_health_no_raise)
qed

text \<open>
  Claim C1 says that an operation whose storage write fails returns normally.
  \<open>record_error\<close> on a fresh manager whose server rejects the write does not
  return: the failure of the write is caught and logged, the error rate 1 exceeds
  0.1, and \<open>send_alert\<close> is entered while \<open>record_error\<close> holds the lock.
\<close>

theorem storage_failure_in_record_error:
  "record_error e ''general'' None (fresh e (True # fl)) =
     (Blocks, (fresh e fl)\<lparr>lock := True,
        metrics := \<lparr>error_count = 1, total_operations = 0, total_latency = 0,
                    total_cost = 0, start_time = clock e\<rparr>,
        logged := [(ERROR, ''Failed to record metric'')]\<rparr>)"
  by (simp add: record_error_def with_lock_def Let_def record_metric_def save_telemetry_def
      next_fault_def log_msg_def then_do_def error_rate_of_value fresh_def empty_store_def
      default_thresholds_def send_alert_def)

subsection \<open>Construction\<close>

text \<open>
  The MongoDB manager, given its handler: with no configuration path, an empty
  one, an absent file or a file that fails to load, it is constructed with the
  built-in thresholds, and a load failure is logged as a warning.
\<close>

lemma init_falls_back_to_defaults:
  assumes "config_path = None \<or> config_path = Some []
           \<or> (\<exists>p. config_path = Some p
                  \<and> (fs p = Missing \<or> fs p = Unreadable \<or> fs p = Malformed))"
  shows "\<exists>m. init fs e (Inr h) config_path = Inr m
           \<and> alert_thresholds m = default_thresholds
           \<and> map_of (alert_thresholds m) ''latency'' = Some 3000
           \<and> map_of (alert_thresholds m) ''cost'' = Some (5 / 1000)
           \<and> map_of (alert_thresholds m) ''error_rate'' = Some (1 / 10)
           \<and> map_of (alert_thresholds m) ''cpu_usage'' = Some 80
           \<and> map_of (alert_thresholds m) ''memory_usage'' = Some 85
           \<and> mongo m = h \<and> lock m = False \<and> alerts m = []
           \<and> logged m = (case config_path of
                            None \<Rightarrow> []
                          | Some p \<Rightarrow> if p \<noteq> [] \<and> (fs p = Unreadable \<or> fs p = Malformed)
                                      then [(WARNING, ''Failed to load config'')] else [])"
  using assms
  by (auto simp: init_def load_config_def default_thresholds_def split: file_state.splits)

text \<open>Without a handler there is no manager, whatever the configuration.\<close>

lemma init_raises_handler_failure: "init fs e (Inl ex) config_path = Inl ex"
  by (simp add: init_def split: prod.splits)

text \<open>
  The old manager with no configuration to load: it is constructed with the
  built-in thresholds when its database can be set up.
\<close>

lemma sqlite_init_defaults:
  assumes "config_path = None \<or> config_path = Some []
           \<or> (\<exists>p. config_path = Some p \<and> fs p = Missing)"
  shows "\<exists>m. sqlite_init fs e (Inr d) config_path = Inr m
           \<and> sq_alert_thresholds m = default_thresholds"
  using assms by (auto simp: sqlite_init_def sqlite_load_config_def)

text \<open>
  Claim C7 says that a configuration file that fails to load or parse is logged
  and never makes construction raise. The old SQLite manager does not do that:
  on a path whose file holds malformed JSON its construction raises the
  exception of \<open>json.load\<close>, whatever the database. The MongoDB manager, given
  its handler, is constructed on the same path with the built-in thresholds and
  logs the failure.
\<close>

theorem sqlite_malformed_config_raises:
  assumes "p \<noteq> []" and "fs p = Malformed"
  shows "sqlite_init fs e init_database (Some p) = Inl JSONDecodeError
       \<and> (\<exists>m. init fs e (Inr h) (Some p) = Inr m
              \<and> alert_thresholds m = default_thresholds
              \<and> logged m = [(WARNING, ''Failed to load config'')])"
  using assms
  by (simp add: sqlite_init_def sqlite_load_config_def init_def load_config_def)

theorem sqlite_malformed_config_raises_witness:
  "''telemetry.json'' \<noteq> [] \<and> malformed_file ''telemetry.json'' = Malformed
   \<and> sqlite_init malformed_file env0 (Inr empty_db) (Some ''telemetry.json'')
       = Inl JSONDecodeError"
  using sqlite_malformed_config_raises
          [of "''telemetry.json''" malformed_file env0 "Inr empty_db" "empty_store []"]
  by (simp add: malformed_file_def)

subsection \<open>The summary over an empty window\<close>

text \<open>
  The start of the window, when it can be computed: the clock reading taken
  through the host's time zone and back, less the hours.
\<close>

lemma cutoff_datetime_value:
  assumes "cutoff_datetime e hours = Inr c"
  shows "c = to_local e (to_posix e (clock e) - of_int (hours * 3600))
       \<and> datetime_min \<le> c \<and> c < datetime_max"
  using assms
  by (auto simp: cutoff_datetime_def int_to_float_def fromtimestamp_def Let_def
      split: if_splits)









subsection \<open>Writing a metric and reading it back\<close>

text \<open>
  Claim C9. Starting from an empty metric store on a server that answers,
  \<open>record_metric("latency", 120.5, {"case": "t1"})\<close> followed by a query for the
  records of the last hour, made while the write is at most an hour old, returns
  exactly one record; its value is 120.5 and its metadata maps \<open>case\<close> to \<open>t1\<close>.
\<close>

theorem record_metric_round_trip:
  assumes "telemetry (mongo s) = []" and "answers 2 (mongo s)"
      and "clock e' - of_int 1 * 3600 \<le> clock e"
  shows "\<exists>i s1 d h.
           record_metric e ''latency'' (241 / 2) (Some [(''case'', JStr ''t1'')]) s
             = (Returns i, s1)
         \<and> find_telemetry (clock e' - of_int 1 * 3600) (mongo s1) = (Inr [d], h)
         \<and> doc_value d = 241 / 2
         \<and> map_of (doc_metadata d) ''case'' = Some (JStr ''t1'')
         \<and> metric_type d = ''latency''"
proof (cases "faults (mongo s)")
  case Nil
  with assms show ?thesis
    by (simp add: record_metric_def save_telemetry_def find_telemetry_def next_fault_def
        log_msg_def Let_def)
next
  case (Cons b bs)
  with assms show ?thesis
    by (cases bs)
       (simp_all add: record_metric_def save_telemetry_def find_telemetry_def next_fault_def
          log_msg_def Let_def answers_def)
qed

theorem record_metric_round_trip_witness:
  "telemetry (mongo (fresh env0 [])) = [] \<and> answers 2 (mongo (fresh env0 []))
   \<and> clock (env0\<lparr>clock := 4000\<rparr>) - of_int 1 * 3600 \<le> clock env0
   \<and> (\<exists>i s1 d h.
         record_metric env0 ''latency'' (241 / 2) (Some [(''case'', JStr ''t1'')])
           (fresh env0 []) = (Returns i, s1)
       \<and> find_telemetry (clock (env0\<lparr>clock := 4000\<rparr>) - of_int 1 * 3600) (mongo s1)
           = (Inr [d], h)
       \<and> doc_value d = 241 / 2
       \<and> map_of (doc_metadata d) ''case'' = Some (JStr ''t1'')
       \<and> metric_type d = ''latency'')"
proof -
  have a: "telemetry (mongo (fresh env0 [])) = []"
    by (simp add: fresh_def empty_store_def)
  have b: "answers 2 (mongo (fresh env0 []))"
    by (simp add: fresh_def empty_store_def answers_def)
  have c: "clock (env0\<lparr>clock := 4000\<rparr>) - of_int 1 * 3600 \<le> clock env0"
    by (simp add: env0_def)
  from record_metric_round_trip [OF a b c] a b c show ?thesis by blast
qed

subsection \<open>The health snapshot is stored\<close>




end
